theory Spec2Isabelle
  imports Main "HOL-Library.Sublist"
begin

section \<open>Text values of the interpreter\<close>

text \<open>
  The gateway is the Python module \<^verbatim>\<open>src/mcp-security/mcp-security.py\<close>. A Python
  \<^verbatim>\<open>str\<close> is modelled as a \<^typ>\<open>string\<close> whose characters are read as the code points
  0 to 255; a Python \<^verbatim>\<open>int\<close> is an \<^typ>\<open>int\<close>.
\<close>

abbreviation LF :: char where "LF \<equiv> CHR 0x0A"
abbreviation CR :: char where "CR \<equiv> CHR 0x0D"
abbreviation DQUOTE :: char where "DQUOTE \<equiv> CHR 0x22"
abbreviation SQUOTE :: char where "SQUOTE \<equiv> CHR 0x27"
abbreviation BACKSLASH :: char where "BACKSLASH \<equiv> CHR 0x5C"

text \<open>\<^verbatim>\<open>str(n)\<close> for an integer: decimal digits, with a minus sign when negative.\<close>

definition digit_char :: "nat \<Rightarrow> char" where
  "digit_char d = ''0123456789'' ! d"

fun str_nat :: "nat \<Rightarrow> string" where
  "str_nat n = (if n < 10 then [digit_char n] else str_nat (n div 10) @ [digit_char (n mod 10)])"

declare str_nat.simps [simp del]

definition str_int :: "int \<Rightarrow> string" where
  "str_int i = (if i < 0 then CHR ''-'' # str_nat (nat (- i)) else str_nat (nat i))"

text \<open>
  \<^verbatim>\<open>s.splitlines()\<close>: the text is cut at every line boundary, the boundaries are
  dropped, a carriage return followed by a line feed is one boundary, and a boundary
  at the very end opens no further line. The first argument is the line read so far.
\<close>

definition is_linebreak :: "char \<Rightarrow> bool" where
  "is_linebreak c = (c \<in> set [LF, CHR 0x0B, CHR 0x0C, CR, CHR 0x1C, CHR 0x1D, CHR 0x1E, CHR 0x85])"

fun splitlines_from :: "string \<Rightarrow> string \<Rightarrow> string list" where
  "splitlines_from cur [] = (if cur = [] then [] else [cur])"
| "splitlines_from cur (c # cs) =
     (if c = CR then
        (case cs of
           [] \<Rightarrow> cur # splitlines_from [] cs
         | d # ds \<Rightarrow> if d = LF then cur # splitlines_from [] ds else cur # splitlines_from [] cs)
      else if is_linebreak c then cur # splitlines_from [] cs
      else splitlines_from (cur @ [c]) cs)"

definition splitlines :: "string \<Rightarrow> string list" where
  "splitlines s = splitlines_from [] s"

text \<open>\<^verbatim>\<open>sep.join(xs)\<close>.\<close>

fun join :: "string \<Rightarrow> string list \<Rightarrow> string" where
  "join sep [] = []"
| "join sep [x] = x"
| "join sep (x # y # ys) = x @ sep @ join sep (y # ys)"

text \<open>
  \<^verbatim>\<open>xs[:stop]\<close>: a negative bound counts from the end, and every bound is clipped to
  the list, so the slice never fails.
\<close>

definition slice_to :: "'a list \<Rightarrow> int \<Rightarrow> 'a list" where
  "slice_to xs stop =
     (let n = int (length xs);
          e = (if stop < 0 then max (n + stop) 0 else min stop n)
      in take (nat e) xs)"

text \<open>\<^verbatim>\<open>s.split()\<close>: the maximal runs of characters that are not white space.\<close>

definition py_isspace :: "char \<Rightarrow> bool" where
  "py_isspace c = (c \<in> set [CHR 0x09, LF, CHR 0x0B, CHR 0x0C, CR, CHR 0x1C, CHR 0x1D, CHR 0x1E,
                             CHR 0x1F, CHR 0x20, CHR 0x85, CHR 0xA0])"

fun split_from :: "string \<Rightarrow> string \<Rightarrow> string list" where
  "split_from cur [] = (if cur = [] then [] else [cur])"
| "split_from cur (c # cs) =
     (if py_isspace c then (if cur = [] then split_from [] cs else cur # split_from [] cs)
      else split_from (cur @ [c]) cs)"

definition split :: "string \<Rightarrow> string list" where
  "split s = split_from [] s"

text \<open>
  \<^verbatim>\<open>repr(s)\<close> of a text: single quotes unless the text has a single quote and no
  double quote; the quote in use and the backslash are escaped, tab, line feed and
  carriage return have their letter escapes, every other character that is not
  printable is written as a two-digit hexadecimal escape. \<^verbatim>\<open>repr(xs)\<close> of a list puts
  the elements' representations between brackets.
\<close>

definition hex_digit :: "nat \<Rightarrow> char" where
  "hex_digit d = ''0123456789abcdef'' ! d"

definition is_printable :: "char \<Rightarrow> bool" where
  "is_printable c =
     (let n = (of_char c :: nat)
      in (32 \<le> n \<and> n < 127) \<or> (161 \<le> n \<and> n \<noteq> 173))"

definition repr_char :: "char \<Rightarrow> char \<Rightarrow> string" where
  "repr_char q c =
     (if c = q \<or> c = BACKSLASH then [BACKSLASH, c]
      else if c = CHR 0x09 then [BACKSLASH, CHR ''t'']
      else if c = LF then [BACKSLASH, CHR ''n'']
      else if c = CR then [BACKSLASH, CHR ''r'']
      else if is_printable c then [c]
      else [BACKSLASH, CHR ''x'', hex_digit ((of_char c :: nat) div 16),
            hex_digit ((of_char c :: nat) mod 16)])"

definition repr_str :: "string \<Rightarrow> string" where
  "repr_str s =
     (let q = (if SQUOTE \<in> set s \<and> DQUOTE \<notin> set s then DQUOTE else SQUOTE)
      in q # concat (map (repr_char q) s) @ [q])"

definition repr_list :: "string list \<Rightarrow> string" where
  "repr_list xs = ''['' @ join '', '' (map repr_str xs) @ '']''"

section \<open>Process creation\<close>

text \<open>
  \<^verbatim>\<open>subprocess.run\<close> is the only effect of the module. Its first argument is either a
  list of arguments or one command line; the keyword arguments the module passes are
  fields of the request (\<^verbatim>\<open>shell\<close> is false when it is not given, and the keyword
  \<^verbatim>\<open>text\<close> is the field \<open>text_mode\<close>).
\<close>

datatype cmdline = Argv "string list" | CommandLine string

record exec_request =
  cmd :: cmdline
  shell :: bool
  capture_output :: bool
  text_mode :: bool
  timeout :: nat

text \<open>
  What the operating system does with a request: the process ends with its captured
  output and exit status, or it is still running at the deadline (with the output
  captured so far), or creating or running it fails with an exception whose
  \<^verbatim>\<open>str\<close> is the given message. The exceptions that \<^verbatim>\<open>subprocess.run\<close> raises are
  instances of \<^verbatim>\<open>Exception\<close>: \<^verbatim>\<open>TimeoutExpired\<close> at the deadline, and otherwise one of
  which only the message matters here. A signal to the interpreter itself, such as a
  keyboard interrupt, is no outcome of a request and is not modelled.
\<close>

datatype proc_outcome =
    Exited string string int
  | Overran string string
  | Fault string

record completed_process =
  returncode :: int
  stdout :: string
  stderr :: string

datatype py_exception =
    TimeoutExpired cmdline nat string string
  | Exception string

text \<open>
  The world is a test double for process creation: \<open>respond\<close> fixes the outcome of
  every request, \<open>calls\<close> records the requests made so far, oldest first.
\<close>

record world =
  respond :: "exec_request \<Rightarrow> proc_outcome"
  calls :: "exec_request list"

definition subprocess_run :: "exec_request \<Rightarrow> world \<Rightarrow> (py_exception + completed_process) \<times> world" where
  "subprocess_run req w =
     (let w' = w\<lparr>calls := calls w @ [req]\<rparr>
      in case respond w req of
           Exited out err rc \<Rightarrow> (Inr \<lparr>returncode = rc, stdout = out, stderr = err\<rparr>, w')
         | Overran out err \<Rightarrow> (Inl (TimeoutExpired (cmd req) (timeout req) out err), w')
         | Fault msg \<Rightarrow> (Inl (Exception msg), w'))"

text \<open>\<^verbatim>\<open>str(e)\<close> of a caught exception.\<close>

fun str_cmd :: "cmdline \<Rightarrow> string" where
  "str_cmd (Argv xs) = repr_list xs"
| "str_cmd (CommandLine s) = s"

fun str_exception :: "py_exception \<Rightarrow> string" where
  "str_exception (TimeoutExpired c t out err) =
     ''Command '' @ [SQUOTE] @ str_cmd c @ [SQUOTE] @ '' timed out after '' @ str_nat t @ '' seconds''"
| "str_exception (Exception msg) = msg"

section \<open>Rendering an integer argument\<close>

text \<open>
  \<^verbatim>\<open>str(n)\<close> refuses an integer of more than
  \<^verbatim>\<open>sys.int_info.default_max_str_digits\<close> decimal digits, 4300 unless the interpreter
  is configured otherwise (the module does not configure it), and raises a
  \<^verbatim>\<open>ValueError\<close> with a fixed message; the sign does not count. Exit statuses and
  deadlines are machine integers far below the limit, so their digits are used as
  they are.
\<close>

definition int_max_str_digits :: nat where
  "int_max_str_digits = 4300"

definition digits_exceeded :: py_exception where
  "digits_exceeded =
     Exception (''Exceeds the limit (4300 digits) for integer string conversion; ''
                @ ''use sys.set_int_max_str_digits() to increase the limit'')"

definition str :: "int \<Rightarrow> py_exception + string" where
  "str n =
     (if int_max_str_digits < length (str_nat (nat \<bar>n\<bar>)) then Inl digits_exceeded
      else Inr (str_int n))"

text \<open>
  A function of the module either returns a text or lets an exception pass to its
  caller. \<open>returned\<close> marks the result of a body that returns.
\<close>

definition returned :: "string \<times> world \<Rightarrow> (py_exception + string) \<times> world" where
  "returned r = (Inr (fst r), snd r)"

section \<open>The process executor of the catalog path\<close>

definition run_nmap_command :: "string list \<Rightarrow> world \<Rightarrow> string \<times> world" where
  "run_nmap_command args w =
     (case subprocess_run
             \<lparr>cmd = Argv ([''nmap''] @ args), shell = False, capture_output = True,
              text_mode = True, timeout = 60\<rparr> w of
        (Inr result, w') \<Rightarrow> (stdout result, w')
      | (Inl e, w') \<Rightarrow> (''Error running Nmap: '' @ str_exception e, w'))"

section \<open>The catalog of operations\<close>

text \<open>
  One definition for each function registered with \<^verbatim>\<open>@mcp.tool()\<close>, in the order of
  the module. A call carries a value for every parameter: a parameter the host leaves
  out has been replaced by its declared default before the body runs.
\<close>

definition simple_scan :: "string \<Rightarrow> world \<Rightarrow> string \<times> world" where
  "simple_scan target w =
     run_nmap_command [''-T4'', target] w"

definition port_scan :: "string \<Rightarrow> string \<Rightarrow> world \<Rightarrow> string \<times> world" where
  "port_scan target ports w =
     run_nmap_command [''-p'', ports, ''-T4'', target] w"

definition os_detection :: "string \<Rightarrow> world \<Rightarrow> string \<times> world" where
  "os_detection target w =
     run_nmap_command [''-O'', target] w"

definition full_scan :: "string \<Rightarrow> world \<Rightarrow> string \<times> world" where
  "full_scan target w =
     run_nmap_command [''-sS'', ''-sV'', ''-T4'', ''-A'', target] w"

definition ping_scan :: "string \<Rightarrow> world \<Rightarrow> string \<times> world" where
  "ping_scan target w =
     run_nmap_command [''-sn'', target] w"

definition scan_specific_port :: "string \<Rightarrow> string \<Rightarrow> world \<Rightarrow> string \<times> world" where
  "scan_specific_port target port w =
     run_nmap_command [''-p'', port, ''-T4'', target] w"

definition service_version_detection :: "string \<Rightarrow> world \<Rightarrow> string \<times> world" where
  "service_version_detection target w =
     run_nmap_command [''-sV'', target] w"

definition aggressive_scan :: "string \<Rightarrow> world \<Rightarrow> string \<times> world" where
  "aggressive_scan target w =
     run_nmap_command [''-A'', target] w"

definition scan_port_range :: "string \<Rightarrow> string \<Rightarrow> world \<Rightarrow> string \<times> world" where
  "scan_port_range target port_range w =
     run_nmap_command [''-p'', port_range, ''-T4'', target] w"

definition http_title_scan :: "string \<Rightarrow> world \<Rightarrow> string \<times> world" where
  "http_title_scan target w =
     run_nmap_command [''-p'', ''80'', ''--script'', ''http-title'', target] w"

definition traceroute_scan :: "string \<Rightarrow> world \<Rightarrow> string \<times> world" where
  "traceroute_scan target w =
     run_nmap_command [''--traceroute'', target] w"

text \<open>
  The four vulnerability lookups write the database name (and the output template)
  into the one argument that follows \<^verbatim>\<open>--script-args\<close>, between two double quote
  characters that are part of the argument.
\<close>

definition vulscan_basic :: "string \<Rightarrow> string \<Rightarrow> world \<Rightarrow> string \<times> world" where
  "vulscan_basic target database w =
     run_nmap_command
       [''-sV'', ''--script=vulscan/vulscan.nse'', ''--script-args'',
        [DQUOTE] @ ''vulscandb='' @ database @ [DQUOTE],
        target] w"

definition vulscan_output_limit :: "string \<Rightarrow> string \<Rightarrow> int \<Rightarrow> world \<Rightarrow> string \<times> world" where
  "vulscan_output_limit target database limit w =
     (let command_args =
            [''-sV'', ''--script=vulscan/vulscan.nse'', ''--script-args'',
             [DQUOTE] @ ''vulscandb='' @ database @ '',vulscanshowall=0,vulscanoutput='' @ [SQUOTE]
               @ ''{id} - {title}'' @ [SQUOTE] @ [DQUOTE],
             target];
          (full_output, w') = run_nmap_command command_args w;
          output_lines = splitlines full_output;
          limited_results = join [LF] (slice_to output_lines limit)
      in (limited_results, w'))"

definition vulscan_interactive :: "string \<Rightarrow> string \<Rightarrow> world \<Rightarrow> string \<times> world" where
  "vulscan_interactive target database w =
     run_nmap_command
       [''-sV'', ''--script=vulscan/vulscan.nse'', ''--script-args'',
        [DQUOTE] @ ''vulscandb='' @ database @ '',vulscaninteractive=1'' @ [DQUOTE],
        target] w"

definition vulscan_custom_output :: "string \<Rightarrow> string \<Rightarrow> string \<Rightarrow> world \<Rightarrow> string \<times> world" where
  "vulscan_custom_output target database custom_template w =
     run_nmap_command
       [''-sV'', ''--script=vulscan/vulscan.nse'', ''--script-args'',
        [DQUOTE] @ ''vulscandb='' @ database @ '',vulscanoutput='' @ [SQUOTE] @ custom_template
          @ [SQUOTE] @ [DQUOTE],
        target] w"

definition ping_subnet_scan :: "string \<Rightarrow> world \<Rightarrow> string \<times> world" where
  "ping_subnet_scan subnet w =
     run_nmap_command [''-sP'', subnet] w"

definition single_host_scan :: "string \<Rightarrow> world \<Rightarrow> string \<times> world" where
  "single_host_scan target w =
     run_nmap_command [target] w"

definition stealth_scan :: "string \<Rightarrow> world \<Rightarrow> string \<times> world" where
  "stealth_scan target w =
     run_nmap_command [''-sS'', target] w"

definition scan_multiple_hosts :: "string \<Rightarrow> world \<Rightarrow> string \<times> world" where
  "scan_multiple_hosts hosts w =
     (let host_list = split hosts in run_nmap_command host_list w)"

definition scan_ip_range :: "string \<Rightarrow> world \<Rightarrow> string \<times> world" where
  "scan_ip_range ip_range w =
     run_nmap_command [ip_range] w"

definition scan_tcp_port :: "string \<Rightarrow> string \<Rightarrow> world \<Rightarrow> string \<times> world" where
  "scan_tcp_port target port w =
     run_nmap_command [''-p'', port, target] w"

text \<open>
  The two scans of the top ports render their integer argument while they build the
  list, before the executor and its handler are entered: an exception of \<^verbatim>\<open>str\<close>
  passes to the caller, and no request is made.
\<close>

definition scan_top_ports ::
  "string \<Rightarrow> int \<Rightarrow> world \<Rightarrow> (py_exception + string) \<times> world" where
  "scan_top_ports target num_ports w =
     (case str num_ports of
        Inl e \<Rightarrow> (Inl e, w)
      | Inr s \<Rightarrow> returned (run_nmap_command [''--top-ports'', s, target] w))"

definition scan_from_file :: "string \<Rightarrow> world \<Rightarrow> string \<times> world" where
  "scan_from_file file_path w =
     run_nmap_command [''-iL'', file_path] w"

definition verbose_scan :: "string \<Rightarrow> world \<Rightarrow> string \<times> world" where
  "verbose_scan target w =
     run_nmap_command [''-v'', target] w"

definition scan_with_normal_output :: "string \<Rightarrow> string \<Rightarrow> world \<Rightarrow> string \<times> world" where
  "scan_with_normal_output target output_file w =
     run_nmap_command [''-oN'', output_file, target] w"

definition scan_with_xml_output :: "string \<Rightarrow> string \<Rightarrow> world \<Rightarrow> string \<times> world" where
  "scan_with_xml_output target output_file w =
     run_nmap_command [''-oX'', output_file, target] w"

definition scan_with_all_formats :: "string \<Rightarrow> string \<Rightarrow> world \<Rightarrow> string \<times> world" where
  "scan_with_all_formats target output_base w =
     run_nmap_command [''-oA'', output_base, target] w"

definition nmap_help :: "world \<Rightarrow> string \<times> world" where
  "nmap_help w =
     run_nmap_command [''-h''] w"

definition udp_scan :: "string \<Rightarrow> world \<Rightarrow> string \<times> world" where
  "udp_scan target w =
     run_nmap_command [''-sU'', target] w"

definition fin_scan :: "string \<Rightarrow> world \<Rightarrow> string \<times> world" where
  "fin_scan target w =
     run_nmap_command [''-sF'', target] w"

definition xmas_scan :: "string \<Rightarrow> world \<Rightarrow> string \<times> world" where
  "xmas_scan target w =
     run_nmap_command [''-sX'', target] w"

definition null_scan :: "string \<Rightarrow> world \<Rightarrow> string \<times> world" where
  "null_scan target w =
     run_nmap_command [''-sN'', target] w"

definition tcp_connect_scan :: "string \<Rightarrow> world \<Rightarrow> string \<times> world" where
  "tcp_connect_scan target w =
     run_nmap_command [''-sT'', target] w"

definition stealth_scan_no_ping :: "string \<Rightarrow> world \<Rightarrow> string \<times> world" where
  "stealth_scan_no_ping target w =
     run_nmap_command [''-sS'', ''-Pn'', target] w"

definition tcp_connect_scan_no_ping :: "string \<Rightarrow> world \<Rightarrow> string \<times> world" where
  "tcp_connect_scan_no_ping target w =
     run_nmap_command [''-sT'', ''-Pn'', target] w"

definition udp_scan_no_ping :: "string \<Rightarrow> world \<Rightarrow> string \<times> world" where
  "udp_scan_no_ping target w =
     run_nmap_command [''-sU'', ''-Pn'', target] w"

definition service_version_scan_no_ping :: "string \<Rightarrow> world \<Rightarrow> string \<times> world" where
  "service_version_scan_no_ping target w =
     run_nmap_command [''-sV'', ''-Pn'', target] w"

definition aggressive_scan_no_ping :: "string \<Rightarrow> world \<Rightarrow> string \<times> world" where
  "aggressive_scan_no_ping target w =
     run_nmap_command [''-A'', ''-Pn'', target] w"

definition port_scan_no_ping :: "string \<Rightarrow> string \<Rightarrow> world \<Rightarrow> string \<times> world" where
  "port_scan_no_ping target ports w =
     run_nmap_command [''-p'', ports, ''-Pn'', target] w"

definition fin_scan_no_ping :: "string \<Rightarrow> world \<Rightarrow> string \<times> world" where
  "fin_scan_no_ping target w =
     run_nmap_command [''-sF'', ''-Pn'', target] w"

definition xmas_scan_no_ping :: "string \<Rightarrow> world \<Rightarrow> string \<times> world" where
  "xmas_scan_no_ping target w =
     run_nmap_command [''-sX'', ''-Pn'', target] w"

definition null_scan_no_ping :: "string \<Rightarrow> world \<Rightarrow> string \<times> world" where
  "null_scan_no_ping target w =
     run_nmap_command [''-sN'', ''-Pn'', target] w"

definition top_ports_scan_no_ping ::
  "string \<Rightarrow> int \<Rightarrow> world \<Rightarrow> (py_exception + string) \<times> world" where
  "top_ports_scan_no_ping target num_ports w =
     (case str num_ports of
        Inl e \<Rightarrow> (Inl e, w)
      | Inr s \<Rightarrow> returned (run_nmap_command [''--top-ports'', s, ''-Pn'', target] w))"

section \<open>The raw command path\<close>

definition execute_custom_nmap_command :: "string \<Rightarrow> world \<Rightarrow> string \<times> world" where
  "execute_custom_nmap_command command w =
     (case subprocess_run
             \<lparr>cmd = CommandLine command, shell = True, capture_output = True,
              text_mode = True, timeout = 120\<rparr> w of
        (Inr result, w') \<Rightarrow>
          (let output = [];
               output = (if stdout result \<noteq> []
                         then output @ ''STDOUT:'' @ [LF] @ stdout result @ [LF] else output);
               output = (if stderr result \<noteq> []
                         then output @ ''STDERR:'' @ [LF] @ stderr result @ [LF] else output);
               output = (if returncode result \<noteq> 0
                         then output @ ''Return Code: '' @ str_int (returncode result) @ [LF]
                         else output)
           in (if output \<noteq> [] then output
               else ''Command executed successfully with no output.'', w'))
      | (Inl (TimeoutExpired c t out err), w') \<Rightarrow>
          (''Error: Command timed out after 120 seconds'', w')
      | (Inl (Exception msg), w') \<Rightarrow>
          (''Error executing command: '' @ str_exception (Exception msg), w'))"

section \<open>Calls from the host\<close>

text \<open>
  The host names a registered function and gives its arguments. A call of a catalog
  operation is a value of \<open>operation\<close>, one constructor for each registered function
  but the raw command; \<open>dispatch\<close> runs the function the call names. Its result is the
  text the function returns, or the exception it lets pass.
\<close>

datatype operation =
    Simple_scan string
  | Port_scan string string
  | Os_detection string
  | Full_scan string
  | Ping_scan string
  | Scan_specific_port string string
  | Service_version_detection string
  | Aggressive_scan string
  | Scan_port_range string string
  | Http_title_scan string
  | Traceroute_scan string
  | Vulscan_basic string string
  | Vulscan_output_limit string string int
  | Vulscan_interactive string string
  | Vulscan_custom_output string string string
  | Ping_subnet_scan string
  | Single_host_scan string
  | Stealth_scan string
  | Scan_multiple_hosts string
  | Scan_ip_range string
  | Scan_tcp_port string string
  | Scan_top_ports string int
  | Scan_from_file string
  | Verbose_scan string
  | Scan_with_normal_output string string
  | Scan_with_xml_output string string
  | Scan_with_all_formats string string
  | Nmap_help
  | Udp_scan string
  | Fin_scan string
  | Xmas_scan string
  | Null_scan string
  | Tcp_connect_scan string
  | Stealth_scan_no_ping string
  | Tcp_connect_scan_no_ping string
  | Udp_scan_no_ping string
  | Service_version_scan_no_ping string
  | Aggressive_scan_no_ping string
  | Port_scan_no_ping string string
  | Fin_scan_no_ping string
  | Xmas_scan_no_ping string
  | Null_scan_no_ping string
  | Top_ports_scan_no_ping string int

fun dispatch :: "operation \<Rightarrow> world \<Rightarrow> (py_exception + string) \<times> world" where
  "dispatch (Simple_scan a) w = returned (simple_scan a w)"
| "dispatch (Port_scan a b) w = returned (port_scan a b w)"
| "dispatch (Os_detection a) w = returned (os_detection a w)"
| "dispatch (Full_scan a) w = returned (full_scan a w)"
| "dispatch (Ping_scan a) w = returned (ping_scan a w)"
| "dispatch (Scan_specific_port a b) w = returned (scan_specific_port a b w)"
| "dispatch (Service_version_detection a) w = returned (service_version_detection a w)"
| "dispatch (Aggressive_scan a) w = returned (aggressive_scan a w)"
| "dispatch (Scan_port_range a b) w = returned (scan_port_range a b w)"
| "dispatch (Http_title_scan a) w = returned (http_title_scan a w)"
| "dispatch (Traceroute_scan a) w = returned (traceroute_scan a w)"
| "dispatch (Vulscan_basic a b) w = returned (vulscan_basic a b w)"
| "dispatch (Vulscan_output_limit a b c) w = returned (vulscan_output_limit a b c w)"
| "dispatch (Vulscan_interactive a b) w = returned (vulscan_interactive a b w)"
| "dispatch (Vulscan_custom_output a b c) w = returned (vulscan_custom_output a b c w)"
| "dispatch (Ping_subnet_scan a) w = returned (ping_subnet_scan a w)"
| "dispatch (Single_host_scan a) w = returned (single_host_scan a w)"
| "dispatch (Stealth_scan a) w = returned (stealth_scan a w)"
| "dispatch (Scan_multiple_hosts a) w = returned (scan_multiple_hosts a w)"
| "dispatch (Scan_ip_range a) w = returned (scan_ip_range a w)"
| "dispatch (Scan_tcp_port a b) w = returned (scan_tcp_port a b w)"
| "dispatch (Scan_top_ports a b) w = scan_top_ports a b w"
| "dispatch (Scan_from_file a) w = returned (scan_from_file a w)"
| "dispatch (Verbose_scan a) w = returned (verbose_scan a w)"
| "dispatch (Scan_with_normal_output a b) w = returned (scan_with_normal_output a b w)"
| "dispatch (Scan_with_xml_output a b) w = returned (scan_with_xml_output a b w)"
| "dispatch (Scan_with_all_formats a b) w = returned (scan_with_all_formats a b w)"
| "dispatch Nmap_help w = returned (nmap_help w)"
| "dispatch (Udp_scan a) w = returned (udp_scan a w)"
| "dispatch (Fin_scan a) w = returned (fin_scan a w)"
| "dispatch (Xmas_scan a) w = returned (xmas_scan a w)"
| "dispatch (Null_scan a) w = returned (null_scan a w)"
| "dispatch (Tcp_connect_scan a) w = returned (tcp_connect_scan a w)"
| "dispatch (Stealth_scan_no_ping a) w = returned (stealth_scan_no_ping a w)"
| "dispatch (Tcp_connect_scan_no_ping a) w = returned (tcp_connect_scan_no_ping a w)"
| "dispatch (Udp_scan_no_ping a) w = returned (udp_scan_no_ping a w)"
| "dispatch (Service_version_scan_no_ping a) w = returned (service_version_scan_no_ping a w)"
| "dispatch (Aggressive_scan_no_ping a) w = returned (aggressive_scan_no_ping a w)"
| "dispatch (Port_scan_no_ping a b) w = returned (port_scan_no_ping a b w)"
| "dispatch (Fin_scan_no_ping a) w = returned (fin_scan_no_ping a w)"
| "dispatch (Xmas_scan_no_ping a) w = returned (xmas_scan_no_ping a w)"
| "dispatch (Null_scan_no_ping a) w = returned (null_scan_no_ping a w)"
| "dispatch (Top_ports_scan_no_ping a b) w = top_ports_scan_no_ping a b w"


section \<open>What a call hands to the executor\<close>

text \<open>
  The requests of a call are read from the record of a world that has seen no call
  yet; \<open>dispatch_calls\<close> below shows that every world records the same ones. A call
  reaches the executor when it makes a request, which every call does unless its
  integer argument cannot be rendered. For a call that reaches the executor,
  \<open>request_of\<close> is its request, and the argument vector is the list the operation
  gives to \<open>run_nmap_command\<close>: the request's arguments after the name of the binary.
\<close>

definition idle_world :: world where
  "idle_world = \<lparr>respond = (\<lambda>req. Exited [] [] 0), calls = []\<rparr>"

definition requests_of :: "operation \<Rightarrow> exec_request list" where
  "requests_of op = calls (snd (dispatch op idle_world))"

definition reaches_executor :: "operation \<Rightarrow> bool" where
  "reaches_executor op = (requests_of op \<noteq> [])"

definition request_of :: "operation \<Rightarrow> exec_request" where
  "request_of op = last (requests_of op)"

definition argument_vector :: "operation \<Rightarrow> string list" where
  "argument_vector op = (case cmd (request_of op) of Argv xs \<Rightarrow> tl xs | CommandLine s \<Rightarrow> [])"

text \<open>
  What an operation does with the text the executor returns: the line-limited lookup
  keeps a slice of its lines, every other operation returns it as it is.
\<close>

definition finish :: "operation \<Rightarrow> string \<Rightarrow> string" where
  "finish op s =
     (case op of
        Vulscan_output_limit t d l \<Rightarrow> join [LF] (slice_to (splitlines s) l)
      | _ \<Rightarrow> s)"

text \<open>
  The values the caller supplies, in the order of the parameters, as texts (an integer
  by its decimal digits).
\<close>

fun user_values :: "operation \<Rightarrow> string list" where
  "user_values (Simple_scan a) = [a]"
| "user_values (Port_scan a b) = [a, b]"
| "user_values (Os_detection a) = [a]"
| "user_values (Full_scan a) = [a]"
| "user_values (Ping_scan a) = [a]"
| "user_values (Scan_specific_port a b) = [a, b]"
| "user_values (Service_version_detection a) = [a]"
| "user_values (Aggressive_scan a) = [a]"
| "user_values (Scan_port_range a b) = [a, b]"
| "user_values (Http_title_scan a) = [a]"
| "user_values (Traceroute_scan a) = [a]"
| "user_values (Vulscan_basic a b) = [a, b]"
| "user_values (Vulscan_output_limit a b c) = [a, b, str_int c]"
| "user_values (Vulscan_interactive a b) = [a, b]"
| "user_values (Vulscan_custom_output a b c) = [a, b, c]"
| "user_values (Ping_subnet_scan a) = [a]"
| "user_values (Single_host_scan a) = [a]"
| "user_values (Stealth_scan a) = [a]"
| "user_values (Scan_multiple_hosts a) = [a]"
| "user_values (Scan_ip_range a) = [a]"
| "user_values (Scan_tcp_port a b) = [a, b]"
| "user_values (Scan_top_ports a b) = [a, str_int b]"
| "user_values (Scan_from_file a) = [a]"
| "user_values (Verbose_scan a) = [a]"
| "user_values (Scan_with_normal_output a b) = [a, b]"
| "user_values (Scan_with_xml_output a b) = [a, b]"
| "user_values (Scan_with_all_formats a b) = [a, b]"
| "user_values Nmap_help = []"
| "user_values (Udp_scan a) = [a]"
| "user_values (Fin_scan a) = [a]"
| "user_values (Xmas_scan a) = [a]"
| "user_values (Null_scan a) = [a]"
| "user_values (Tcp_connect_scan a) = [a]"
| "user_values (Stealth_scan_no_ping a) = [a]"
| "user_values (Tcp_connect_scan_no_ping a) = [a]"
| "user_values (Udp_scan_no_ping a) = [a]"
| "user_values (Service_version_scan_no_ping a) = [a]"
| "user_values (Aggressive_scan_no_ping a) = [a]"
| "user_values (Port_scan_no_ping a b) = [a, b]"
| "user_values (Fin_scan_no_ping a) = [a]"
| "user_values (Xmas_scan_no_ping a) = [a]"
| "user_values (Null_scan_no_ping a) = [a]"
| "user_values (Top_ports_scan_no_ping a b) = [a, str_int b]"

text \<open>
  The operations that write a supplied value into a longer argument, and the one that
  cuts its value into several arguments.
\<close>

definition interpolating :: "operation \<Rightarrow> bool" where
  "interpolating op =
     (case op of
        Vulscan_basic t d \<Rightarrow> True
      | Vulscan_output_limit t d l \<Rightarrow> True
      | Vulscan_interactive t d \<Rightarrow> True
      | Vulscan_custom_output t d c \<Rightarrow> True
      | _ \<Rightarrow> False)"

definition splitting :: "operation \<Rightarrow> bool" where
  "splitting op = (case op of Scan_multiple_hosts h \<Rightarrow> True | _ \<Rightarrow> False)"

text \<open>
  The supplied values that are passed on as an argument of their own: all of them,
  but only the target for the four vulnerability lookups, and none for the scan of
  several hosts.
\<close>

definition own_slot_values :: "operation \<Rightarrow> string list" where
  "own_slot_values op =
     (if interpolating op then [hd (user_values op)]
      else if splitting op then []
      else user_values op)"

text \<open>The words the module itself writes into argument vectors.\<close>

definition operation_words :: "string list" where
  "operation_words =
     [''-T4'', ''-p'', ''-O'', ''-sS'', ''-sV'', ''-A'', ''-sn'', ''80'', ''--script'',
      ''http-title'', ''--traceroute'', ''--script=vulscan/vulscan.nse'', ''--script-args'',
      ''-sP'', ''--top-ports'', ''-iL'', ''-v'', ''-oN'', ''-oX'', ''-oA'', ''-h'', ''-sU'',
      ''-sF'', ''-sX'', ''-sN'', ''-sT'', ''-Pn'']"

text \<open>The outcomes of a request that are failures, and the message of the exception raised.\<close>

fun is_failure :: "proc_outcome \<Rightarrow> bool" where
  "is_failure (Exited out err rc) = False"
| "is_failure (Overran out err) = True"
| "is_failure (Fault msg) = True"

fun underlying_message :: "exec_request \<Rightarrow> proc_outcome \<Rightarrow> string" where
  "underlying_message req (Exited out err rc) = []"
| "underlying_message req (Overran out err) =
     str_exception (TimeoutExpired (cmd req) (timeout req) out err)"
| "underlying_message req (Fault msg) = str_exception (Exception msg)"

text \<open>The two requests the module makes.\<close>

abbreviation nmap_request :: "string list \<Rightarrow> exec_request" where
  "nmap_request args \<equiv>
     \<lparr>cmd = Argv (''nmap'' # args), shell = False, capture_output = True, text_mode = True,
      timeout = 60\<rparr>"

abbreviation raw_request :: "string \<Rightarrow> exec_request" where
  "raw_request command \<equiv>
     \<lparr>cmd = CommandLine command, shell = True, capture_output = True, text_mode = True,
      timeout = 120\<rparr>"

text \<open>Worlds and a response used in the examples below.\<close>

definition failing_world :: world where
  "failing_world = \<lparr>respond = (\<lambda>req. Fault ''[Errno 2] No such file or directory''), calls = []\<rparr>"

definition stalled_world :: world where
  "stalled_world = \<lparr>respond = (\<lambda>req. Overran ''Starting Nmap'' []), calls = []\<rparr>"

definition answering_world :: "string \<Rightarrow> string \<Rightarrow> int \<Rightarrow> world" where
  "answering_world out err rc = \<lparr>respond = (\<lambda>req. Exited out err rc), calls = []\<rparr>"

definition three_lines :: string where
  "three_lines = ''CVE-1'' @ [LF] @ ''CVE-2'' @ [LF] @ ''CVE-3'' @ [LF]"

section \<open>The executor and the dispatch, equationally\<close>

lemmas tool_defs =
  simple_scan_def port_scan_def os_detection_def full_scan_def ping_scan_def
  scan_specific_port_def service_version_detection_def aggressive_scan_def
  scan_port_range_def http_title_scan_def traceroute_scan_def vulscan_basic_def
  vulscan_output_limit_def vulscan_interactive_def vulscan_custom_output_def
  ping_subnet_scan_def single_host_scan_def stealth_scan_def scan_multiple_hosts_def
  scan_ip_range_def scan_tcp_port_def scan_top_ports_def scan_from_file_def
  verbose_scan_def scan_with_normal_output_def scan_with_xml_output_def
  scan_with_all_formats_def nmap_help_def udp_scan_def fin_scan_def xmas_scan_def
  null_scan_def tcp_connect_scan_def stealth_scan_no_ping_def tcp_connect_scan_no_ping_def
  udp_scan_no_ping_def service_version_scan_no_ping_def aggressive_scan_no_ping_def
  port_scan_no_ping_def fin_scan_no_ping_def xmas_scan_no_ping_def null_scan_no_ping_def
  top_ports_scan_no_ping_def

lemma str_nat_60: "str_nat 60 = ''60''"
  by (simp add: str_nat.simps digit_char_def)

lemma length_str_nat: "0 < k \<Longrightarrow> (length (str_nat n) \<le> k) = (n < 10 ^ k)"
proof (induction n arbitrary: k rule: str_nat.induct)
  case (1 n)
  show ?case
  proof (cases "n < 10")
    case True
    have "(10::nat) ^ 1 \<le> 10 ^ k" using "1.prems" by (intro power_increasing) simp_all
    then have "n < 10 ^ k" using True by simp
    moreover have "length (str_nat n) = 1" using True by (subst str_nat.simps) simp
    ultimately show ?thesis using "1.prems" by simp
  next
    case False
    have len: "length (str_nat n) = Suc (length (str_nat (n div 10)))"
      using False by (subst str_nat.simps) simp
    show ?thesis
    proof (cases k)
      case 0
      then show ?thesis using "1.prems" by simp
    next
      case (Suc j)
      show ?thesis
      proof (cases "j = 0")
        case True
        have "0 < length (str_nat (n div 10))" by (subst str_nat.simps) simp
        then show ?thesis using True Suc len False by simp
      next
        case j: False
        have "(length (str_nat (n div 10)) \<le> j) = (n div 10 < 10 ^ j)"
          using "1.IH"[OF False, of j] j by simp
        moreover have "(n div 10 < 10 ^ j) = (n < 10 ^ Suc j)"
          by (simp add: div_less_iff_less_mult mult.commute)
        ultimately show ?thesis using Suc len by simp
      qed
    qed
  qed
qed

lemma str_Inr_iff: "(str n = Inr s) = (\<bar>n\<bar> < 10 ^ int_max_str_digits \<and> s = str_int n)"
proof -
  have "0 < int_max_str_digits" by (simp add: int_max_str_digits_def)
  then have "(length (str_nat (nat \<bar>n\<bar>)) \<le> int_max_str_digits)
               = (nat \<bar>n\<bar> < 10 ^ int_max_str_digits)"
    by (rule length_str_nat)
  also have "\<dots> = (\<bar>n\<bar> < 10 ^ int_max_str_digits)"
    by (simp add: nat_less_iff)
  finally show ?thesis by (auto simp: str_def not_less)
qed

lemma str_cases:
  "(\<bar>n\<bar> < 10 ^ int_max_str_digits \<and> str n = Inr (str_int n))
   \<or> (10 ^ int_max_str_digits \<le> \<bar>n\<bar> \<and> str n = Inl digits_exceeded)"
  using str_Inr_iff[of n "str_int n"] by (auto simp: str_def not_less split: if_splits)

lemma run_nmap_command_snd:
  "snd (run_nmap_command args w) = w\<lparr>calls := calls w @ [nmap_request args]\<rparr>"
  by (simp add: run_nmap_command_def subprocess_run_def Let_def split: proc_outcome.splits)

lemma run_nmap_command_fst:
  "fst (run_nmap_command args w) =
     (case respond w (nmap_request args) of
        Exited out err rc \<Rightarrow> out
      | Overran out err \<Rightarrow>
          ''Error running Nmap: '' @ underlying_message (nmap_request args) (Overran out err)
      | Fault msg \<Rightarrow> ''Error running Nmap: '' @ msg)"
  by (simp add: run_nmap_command_def subprocess_run_def Let_def split: proc_outcome.splits)

lemma timeout_message:
  "underlying_message (nmap_request args) (Overran out err) =
     ''Command '' @ [SQUOTE] @ repr_list (''nmap'' # args) @ [SQUOTE]
       @ '' timed out after 60 seconds''"
  by (simp add: str_nat_60)

text \<open>The calls that reach the executor.\<close>

lemma requests_of_top_ports:
  "requests_of (Scan_top_ports target num_ports) =
     (if \<bar>num_ports\<bar> < 10 ^ int_max_str_digits
      then [nmap_request [''--top-ports'', str_int num_ports, target]] else [])"
  "requests_of (Top_ports_scan_no_ping target num_ports) =
     (if \<bar>num_ports\<bar> < 10 ^ int_max_str_digits
      then [nmap_request [''--top-ports'', str_int num_ports, ''-Pn'', target]] else [])"
  using str_cases[of num_ports]
  by (auto simp: requests_of_def idle_world_def scan_top_ports_def top_ports_scan_no_ping_def
        returned_def run_nmap_command_snd)

lemma reaches_executor_top_ports:
  "reaches_executor (Scan_top_ports target num_ports) = (\<bar>num_ports\<bar> < 10 ^ int_max_str_digits)"
  "reaches_executor (Top_ports_scan_no_ping target num_ports)
     = (\<bar>num_ports\<bar> < 10 ^ int_max_str_digits)"
  by (simp_all add: reaches_executor_def requests_of_top_ports)

lemma reaches_executor_other:
  "(\<forall>t n. op \<noteq> Scan_top_ports t n) \<Longrightarrow> (\<forall>t n. op \<noteq> Top_ports_scan_no_ping t n) \<Longrightarrow>
   reaches_executor op"
  by (cases op)
     (simp_all add: reaches_executor_def requests_of_def idle_world_def tool_defs returned_def
        run_nmap_command_snd case_prod_beta Let_def)

lemma reaches_simple_scan: "reaches_executor (Simple_scan ''127.0.0.1'')"
  by (simp add: reaches_executor_other)

lemma reaches_limit: "reaches_executor (Vulscan_output_limit t d l)"
  by (simp add: reaches_executor_other)

text \<open>The list each operation gives to the executor.\<close>

lemma argument_vector_simps:
  "argument_vector (Simple_scan target) = [''-T4'', target]"
  "argument_vector (Port_scan target ports) = [''-p'', ports, ''-T4'', target]"
  "argument_vector (Os_detection target) = [''-O'', target]"
  "argument_vector (Full_scan target) = [''-sS'', ''-sV'', ''-T4'', ''-A'', target]"
  "argument_vector (Ping_scan target) = [''-sn'', target]"
  "argument_vector (Scan_specific_port target port) = [''-p'', port, ''-T4'', target]"
  "argument_vector (Service_version_detection target) = [''-sV'', target]"
  "argument_vector (Aggressive_scan target) = [''-A'', target]"
  "argument_vector (Scan_port_range target port_range) = [''-p'', port_range, ''-T4'', target]"
  "argument_vector (Http_title_scan target) = [''-p'', ''80'', ''--script'', ''http-title'', target]"
  "argument_vector (Traceroute_scan target) = [''--traceroute'', target]"
  "argument_vector (Vulscan_basic target database) = [''-sV'', ''--script=vulscan/vulscan.nse'', ''--script-args'', [DQUOTE] @ ''vulscandb='' @ database @ [DQUOTE], target]"
  "argument_vector (Vulscan_output_limit target database limit) = [''-sV'', ''--script=vulscan/vulscan.nse'', ''--script-args'', [DQUOTE] @ ''vulscandb='' @ database @ '',vulscanshowall=0,vulscanoutput='' @ [SQUOTE] @ ''{id} - {title}'' @ [SQUOTE] @ [DQUOTE], target]"
  "argument_vector (Vulscan_interactive target database) = [''-sV'', ''--script=vulscan/vulscan.nse'', ''--script-args'', [DQUOTE] @ ''vulscandb='' @ database @ '',vulscaninteractive=1'' @ [DQUOTE], target]"
  "argument_vector (Vulscan_custom_output target database custom_template) = [''-sV'', ''--script=vulscan/vulscan.nse'', ''--script-args'', [DQUOTE] @ ''vulscandb='' @ database @ '',vulscanoutput='' @ [SQUOTE] @ custom_template @ [SQUOTE] @ [DQUOTE], target]"
  "argument_vector (Ping_subnet_scan subnet) = [''-sP'', subnet]"
  "argument_vector (Single_host_scan target) = [target]"
  "argument_vector (Stealth_scan target) = [''-sS'', target]"
  "argument_vector (Scan_multiple_hosts hosts) = split hosts"
  "argument_vector (Scan_ip_range ip_range) = [ip_range]"
  "argument_vector (Scan_tcp_port target port) = [''-p'', port, target]"
  "argument_vector (Scan_from_file file_path) = [''-iL'', file_path]"
  "argument_vector (Verbose_scan target) = [''-v'', target]"
  "argument_vector (Scan_with_normal_output target output_file) = [''-oN'', output_file, target]"
  "argument_vector (Scan_with_xml_output target output_file) = [''-oX'', output_file, target]"
  "argument_vector (Scan_with_all_formats target output_base) = [''-oA'', output_base, target]"
  "argument_vector Nmap_help = [''-h'']"
  "argument_vector (Udp_scan target) = [''-sU'', target]"
  "argument_vector (Fin_scan target) = [''-sF'', target]"
  "argument_vector (Xmas_scan target) = [''-sX'', target]"
  "argument_vector (Null_scan target) = [''-sN'', target]"
  "argument_vector (Tcp_connect_scan target) = [''-sT'', target]"
  "argument_vector (Stealth_scan_no_ping target) = [''-sS'', ''-Pn'', target]"
  "argument_vector (Tcp_connect_scan_no_ping target) = [''-sT'', ''-Pn'', target]"
  "argument_vector (Udp_scan_no_ping target) = [''-sU'', ''-Pn'', target]"
  "argument_vector (Service_version_scan_no_ping target) = [''-sV'', ''-Pn'', target]"
  "argument_vector (Aggressive_scan_no_ping target) = [''-A'', ''-Pn'', target]"
  "argument_vector (Port_scan_no_ping target ports) = [''-p'', ports, ''-Pn'', target]"
  "argument_vector (Fin_scan_no_ping target) = [''-sF'', ''-Pn'', target]"
  "argument_vector (Xmas_scan_no_ping target) = [''-sX'', ''-Pn'', target]"
  "argument_vector (Null_scan_no_ping target) = [''-sN'', ''-Pn'', target]"
  by (simp_all add: argument_vector_def request_of_def requests_of_def idle_world_def tool_defs
        returned_def run_nmap_command_def subprocess_run_def Let_def)

lemma argument_vector_top_ports:
  "\<bar>num_ports\<bar> < 10 ^ int_max_str_digits \<Longrightarrow>
   argument_vector (Scan_top_ports target num_ports) = [''--top-ports'', str_int num_ports, target]"
  "\<bar>num_ports\<bar> < 10 ^ int_max_str_digits \<Longrightarrow>
   argument_vector (Top_ports_scan_no_ping target num_ports)
     = [''--top-ports'', str_int num_ports, ''-Pn'', target]"
  by (simp_all add: argument_vector_def request_of_def requests_of_top_ports)

lemma requests_of_eq:
  "reaches_executor op \<Longrightarrow> requests_of op = [nmap_request (argument_vector op)]"
proof (cases op)
  case (Scan_top_ports t n)
  then show "reaches_executor op \<Longrightarrow> ?thesis"
    by (simp add: reaches_executor_top_ports requests_of_top_ports argument_vector_top_ports)
next
  case (Top_ports_scan_no_ping t n)
  then show "reaches_executor op \<Longrightarrow> ?thesis"
    by (simp add: reaches_executor_top_ports requests_of_top_ports argument_vector_top_ports)
qed (simp_all add: argument_vector_def request_of_def requests_of_def idle_world_def tool_defs
       returned_def run_nmap_command_snd case_prod_beta Let_def)

lemma request_of_eq: "reaches_executor op \<Longrightarrow> request_of op = nmap_request (argument_vector op)"
  by (simp add: request_of_def requests_of_eq)

lemma dispatch_eq:
  "reaches_executor op \<Longrightarrow>
   dispatch op w =
     (Inr (finish op (fst (run_nmap_command (argument_vector op) w))),
      snd (run_nmap_command (argument_vector op) w))"
proof (cases op)
  case (Scan_top_ports t n)
  then show "reaches_executor op \<Longrightarrow> ?thesis"
    using str_cases[of n]
    by (auto simp: reaches_executor_top_ports argument_vector_top_ports scan_top_ports_def
          returned_def finish_def)
next
  case (Top_ports_scan_no_ping t n)
  then show "reaches_executor op \<Longrightarrow> ?thesis"
    using str_cases[of n]
    by (auto simp: reaches_executor_top_ports argument_vector_top_ports
          top_ports_scan_no_ping_def returned_def finish_def)
qed (simp_all add: argument_vector_simps tool_defs returned_def finish_def Let_def
       split: prod.splits)

lemma dispatch_raises:
  "\<not> reaches_executor op \<Longrightarrow> dispatch op w = (Inl digits_exceeded, w)"
proof (cases op)
  case (Scan_top_ports t n)
  then show "\<not> reaches_executor op \<Longrightarrow> ?thesis"
    using str_cases[of n]
    by (auto simp: reaches_executor_top_ports scan_top_ports_def)
next
  case (Top_ports_scan_no_ping t n)
  then show "\<not> reaches_executor op \<Longrightarrow> ?thesis"
    using str_cases[of n]
    by (auto simp: reaches_executor_top_ports top_ports_scan_no_ping_def)
qed (simp_all add: reaches_executor_other)

lemma dispatch_calls: "calls (snd (dispatch op w)) = calls w @ requests_of op"
proof (cases "reaches_executor op")
  case True
  then show ?thesis by (simp add: dispatch_eq run_nmap_command_snd requests_of_eq)
next
  case False
  then show ?thesis by (simp add: dispatch_raises reaches_executor_def)
qed

lemma dispatch_fst_respond:
  "respond w1 = respond w2 \<Longrightarrow> fst (dispatch op w1) = fst (dispatch op w2)"
proof (cases "reaches_executor op")
  case True
  assume "respond w1 = respond w2"
  then show ?thesis by (simp add: dispatch_eq[OF True] run_nmap_command_fst)
next
  case False
  then show ?thesis by (simp add: dispatch_raises)
qed

lemma top_ports_raises:
  "\<not> reaches_executor (Scan_top_ports ''127.0.0.1'' (10 ^ 4300))"
  "dispatch (Scan_top_ports ''127.0.0.1'' (10 ^ 4300)) w = (Inl digits_exceeded, w)"
proof -
  have "\<not> reaches_executor (Scan_top_ports ''127.0.0.1'' (10 ^ int_max_str_digits))"
    by (simp add: reaches_executor_top_ports)
  then show n: "\<not> reaches_executor (Scan_top_ports ''127.0.0.1'' (10 ^ 4300))"
    unfolding int_max_str_digits_def .
  show "dispatch (Scan_top_ports ''127.0.0.1'' (10 ^ 4300)) w = (Inl digits_exceeded, w)"
    using n by (rule dispatch_raises)
qed

lemma execute_custom_nmap_command_snd:
  "snd (execute_custom_nmap_command command w) = w\<lparr>calls := calls w @ [raw_request command]\<rparr>"
  by (simp add: execute_custom_nmap_command_def subprocess_run_def Let_def
        split: proc_outcome.splits)

lemma execute_custom_nmap_command_Fault:
  "respond w (raw_request command) = Fault msg \<Longrightarrow>
   fst (execute_custom_nmap_command command w) = ''Error executing command: '' @ msg"
  by (simp add: execute_custom_nmap_command_def subprocess_run_def Let_def)

lemma execute_custom_nmap_command_Overran:
  "respond w (raw_request command) = Overran out err \<Longrightarrow>
   fst (execute_custom_nmap_command command w) = ''Error: Command timed out after 120 seconds''"
  by (simp add: execute_custom_nmap_command_def subprocess_run_def Let_def)

lemma execute_custom_nmap_command_Exited:
  "respond w (raw_request command) = Exited out err rc \<Longrightarrow>
   fst (execute_custom_nmap_command command w) =
     (if out = [] \<and> err = [] \<and> rc = 0 then ''Command executed successfully with no output.''
      else (if out \<noteq> [] then ''STDOUT:'' @ [LF] @ out @ [LF] else [])
         @ (if err \<noteq> [] then ''STDERR:'' @ [LF] @ err @ [LF] else [])
         @ (if rc \<noteq> 0 then ''Return Code: '' @ str_int rc @ [LF] else []))"
  by (simp add: execute_custom_nmap_command_def subprocess_run_def Let_def)

section \<open>The catalog path never goes through a shell\<close>

text \<open>
  Claim C2. Every call of a catalog operation, in every world, records the requests
  of that call and nothing else. A call that reaches the executor makes exactly one
  request; its command is an argument list whose first element is the fixed name
  \<^verbatim>\<open>nmap\<close>, followed by the operation's argument vector, and it is made without
  shell interpretation. A call that does not reach the executor makes no request at
  all. The raw command makes one request, whose command is the caller's command
  line, with shell interpretation: it is the only path that does.
\<close>

theorem catalog_requests_bypass_shell:
  "calls (snd (dispatch op w)) = calls w @ requests_of op
   \<and> (reaches_executor op \<longrightarrow>
         requests_of op = [request_of op]
         \<and> cmd (request_of op) = Argv (''nmap'' # argument_vector op)
         \<and> shell (request_of op) = False)
   \<and> (\<not> reaches_executor op \<longrightarrow> requests_of op = [])
   \<and> calls (snd (execute_custom_nmap_command command w)) =
       calls w @ [\<lparr>cmd = CommandLine command, shell = True, capture_output = True,
                   text_mode = True, timeout = 120\<rparr>]"
proof -
  have "\<not> reaches_executor op \<longrightarrow> requests_of op = []"
    by (simp add: reaches_executor_def)
  then show ?thesis
    by (simp add: dispatch_calls requests_of_eq request_of_eq execute_custom_nmap_command_snd)
qed

theorem catalog_requests_bypass_shell_witness:
  "reaches_executor (Port_scan ''127.0.0.1'' ''80,443'')
   \<and> calls (snd (dispatch (Port_scan ''127.0.0.1'' ''80,443'') idle_world))
       = [nmap_request [''-p'', ''80,443'', ''-T4'', ''127.0.0.1'']]
   \<and> shell (request_of (Port_scan ''127.0.0.1'' ''80,443'')) = False
   \<and> \<not> reaches_executor (Scan_top_ports ''127.0.0.1'' (10 ^ 4300))
   \<and> calls (snd (dispatch (Scan_top_ports ''127.0.0.1'' (10 ^ 4300)) idle_world)) = []"
proof -
  have r: "reaches_executor (Port_scan ''127.0.0.1'' ''80,443'')"
    by (simp add: reaches_executor_other)
  have i: "calls idle_world = []" by (simp add: idle_world_def)
  note a = catalog_requests_bypass_shell[of "Port_scan ''127.0.0.1'' ''80,443''" idle_world]
  note b = catalog_requests_bypass_shell[of "Scan_top_ports ''127.0.0.1'' (10 ^ 4300)" idle_world]
  have "calls (snd (dispatch (Port_scan ''127.0.0.1'' ''80,443'') idle_world))
          = [nmap_request (argument_vector (Port_scan ''127.0.0.1'' ''80,443''))]"
    using a r i by (simp add: request_of_eq del: dispatch.simps)
  then have c: "calls (snd (dispatch (Port_scan ''127.0.0.1'' ''80,443'') idle_world))
          = [nmap_request [''-p'', ''80,443'', ''-T4'', ''127.0.0.1'']]"
    by (simp add: argument_vector_simps del: dispatch.simps)
  have s: "shell (request_of (Port_scan ''127.0.0.1'' ''80,443'')) = False"
    using a r by blast
  have "requests_of (Scan_top_ports ''127.0.0.1'' (10 ^ 4300)) = []"
    using b top_ports_raises(1) by blast
  then have d: "calls (snd (dispatch (Scan_top_ports ''127.0.0.1'' (10 ^ 4300)) idle_world)) = []"
    using b i by (simp only: append_Nil)
  show ?thesis using r c s top_ports_raises(1) d by blast
qed

section \<open>The text of the raw command path\<close>

text \<open>
  Claim C8. When the command of the raw path ends, the text returned is the section
  of the standard output if there is any, then the section of the standard error if
  there is any, then the line of the exit code if it is not zero. The fixed sentence
  for no output is returned exactly when the three are missing; a command that
  prints nothing and exits with a code other than zero gets the line of its code.
\<close>

theorem raw_result_format:
  assumes "respond w \<lparr>cmd = CommandLine command, shell = True, capture_output = True,
                      text_mode = True, timeout = 120\<rparr> = Exited out err rc"
  shows "fst (execute_custom_nmap_command command w) =
           (if out = [] \<and> err = [] \<and> rc = 0
            then ''Command executed successfully with no output.''
            else (if out \<noteq> [] then ''STDOUT:'' @ [LF] @ out @ [LF] else [])
               @ (if err \<noteq> [] then ''STDERR:'' @ [LF] @ err @ [LF] else [])
               @ (if rc \<noteq> 0 then ''Return Code: '' @ str_int rc @ [LF] else []))
         \<and> (fst (execute_custom_nmap_command command w)
               = ''Command executed successfully with no output.''
              \<longleftrightarrow> out = [] \<and> err = [] \<and> rc = 0)
         \<and> (out = [] \<and> err = [] \<and> rc \<noteq> 0 \<longrightarrow>
              fst (execute_custom_nmap_command command w) = ''Return Code: '' @ str_int rc @ [LF])"
  using execute_custom_nmap_command_Exited[OF assms] by auto

theorem raw_result_format_witness:
  "fst (execute_custom_nmap_command ''false''
          \<lparr>respond = (\<lambda>req. Exited [] [] 1), calls = []\<rparr>) = ''Return Code: 1'' @ [LF]
   \<and> fst (execute_custom_nmap_command ''false''
          \<lparr>respond = (\<lambda>req. Exited [] [] 1), calls = []\<rparr>)
       \<noteq> ''Command executed successfully with no output.''"
  using raw_result_format
          [of "\<lparr>respond = (\<lambda>req. Exited [] [] 1), calls = []\<rparr>" "''false''" "[]" "[]" 1]
  by (simp add: str_int_def str_nat.simps digit_char_def)

section \<open>Lines, slices and the text of a failure\<close>

lemma splitlines_from_no_break:
  "\<forall>c \<in> set p. \<not> is_linebreak c \<Longrightarrow>
   splitlines_from cur (p @ rest) = splitlines_from (cur @ p) rest"
proof (induction p arbitrary: cur)
  case Nil
  then show ?case by simp
next
  case (Cons c p)
  have "c \<noteq> CR" using Cons.prems by (auto simp: is_linebreak_def)
  then show ?case using Cons by simp
qed

lemma splitlines_from_nonempty:
  "cur \<noteq> [] \<Longrightarrow> \<exists>l ls. splitlines_from cur rest = l # ls \<and> prefix cur l"
proof (induction rest arbitrary: cur)
  case Nil
  then show ?case by simp
next
  case (Cons c cs)
  show ?case
  proof (cases "c = CR \<or> is_linebreak c")
    case True
    then show ?thesis by (cases cs) auto
  next
    case False
    then have "splitlines_from cur (c # cs) = splitlines_from (cur @ [c]) cs" by simp
    moreover obtain l ls where "splitlines_from (cur @ [c]) cs = l # ls" "prefix (cur @ [c]) l"
      using Cons.IH[of "cur @ [c]"] by auto
    ultimately show ?thesis by (auto dest: append_prefixD)
  qed
qed

lemma error_prefix_no_break: "\<forall>c \<in> set ''Error running Nmap: ''. \<not> is_linebreak c"
  by (simp add: is_linebreak_def)

lemma splitlines_error_text:
  "\<exists>l ls. splitlines (''Error running Nmap: '' @ msg) = l # ls \<and> prefix ''Error running Nmap: '' l"
proof -
  have "splitlines (''Error running Nmap: '' @ msg) = splitlines_from ''Error running Nmap: '' msg"
    unfolding splitlines_def
    using splitlines_from_no_break[OF error_prefix_no_break, of "[]" msg] by simp
  then show ?thesis
    using splitlines_from_nonempty[of "''Error running Nmap: ''" msg] by auto
qed

lemma join_Cons_prefix: "prefix x (join sep (x # xs))"
  by (cases xs) auto

lemma slice_to_Cons_pos: "1 \<le> n \<Longrightarrow> \<exists>ys. slice_to (x # xs) n = x # ys"
  by (auto simp: slice_to_def Let_def min_def nat_le_iff take_Cons' split: if_splits)

lemma slice_to_nonneg: "0 \<le> n \<Longrightarrow> slice_to xs n = take (nat n) xs"
  by (auto simp: slice_to_def Let_def min_def)

lemma slice_to_neg: "n < 0 \<Longrightarrow> slice_to xs n = take (length xs - nat (- n)) xs"
proof -
  assume n: "n < 0"
  have "nat (max (int (length xs) + n) 0) = length xs - nat (- n)" using n by linarith
  then show ?thesis using n by (simp add: slice_to_def Let_def)
qed

lemma slice_to_all: "int (length xs) \<le> n \<Longrightarrow> slice_to xs n = xs"
  by (auto simp: slice_to_def Let_def min_def)

lemma splitlines_from_Cons_nonempty: "splitlines_from cur (c # cs) \<noteq> []"
proof (induction cs arbitrary: cur c)
  case Nil
  then show ?case by simp
next
  case (Cons d ds)
  then show ?case by (simp del: splitlines_from.simps(2) add: splitlines_from.simps(2)[of cur c])
qed

lemma join_Cons_nonempty: "xs \<noteq> [] \<Longrightarrow> join sep (x # xs) = x @ sep @ join sep xs"
  by (cases xs) simp_all

lemma join_splitlines_from:
  assumes "\<forall>c \<in> set s. is_linebreak c \<longrightarrow> c = LF" and "s = [] \<or> last s \<noteq> LF"
  shows "join [LF] (splitlines_from cur s) = cur @ s"
  using assms
proof (induction s arbitrary: cur)
  case Nil
  then show ?case by simp
next
  case (Cons c cs)
  have brk: "\<forall>c \<in> set cs. is_linebreak c \<longrightarrow> c = LF" using Cons.prems(1) by simp
  show ?case
  proof (cases "c = LF")
    case True
    then have ne: "cs \<noteq> []" using Cons.prems(2) by auto
    then have lst: "cs = [] \<or> last cs \<noteq> LF" using Cons.prems(2) by simp
    obtain d ds where cs: "cs = d # ds" using ne by (cases cs) auto
    have "splitlines_from cur (c # cs) = cur # splitlines_from [] cs"
      using True by (simp add: is_linebreak_def)
    moreover have "splitlines_from [] cs \<noteq> []"
      unfolding cs by (rule splitlines_from_Cons_nonempty)
    moreover have "join [LF] (splitlines_from [] cs) = cs"
      using Cons.IH[OF brk lst, of "[]"] by simp
    ultimately show ?thesis using True by (simp add: join_Cons_nonempty)
  next
    case False
    then have nb: "\<not> is_linebreak c" using Cons.prems(1) by auto
    then have ncr: "c \<noteq> CR" by (auto simp: is_linebreak_def)
    have lst: "cs = [] \<or> last cs \<noteq> LF" using Cons.prems(2) by (auto split: if_splits)
    have "splitlines_from cur (c # cs) = splitlines_from (cur @ [c]) cs"
      using nb ncr by simp
    then show ?thesis using Cons.IH[OF brk lst, of "cur @ [c]"] by simp
  qed
qed

lemma join_splitlines:
  "\<forall>c \<in> set s. is_linebreak c \<longrightarrow> c = LF \<Longrightarrow> s = [] \<or> last s \<noteq> LF \<Longrightarrow>
   join [LF] (splitlines s) = s"
  using join_splitlines_from[of s "[]"] by (simp add: splitlines_def)

lemma limited_error_text:
  assumes "1 \<le> l"
  shows "prefix ''Error running Nmap: ''
           (join [LF] (slice_to (splitlines (''Error running Nmap: '' @ msg)) l))"
proof -
  obtain x xs where sp: "splitlines (''Error running Nmap: '' @ msg) = x # xs"
    and px: "prefix ''Error running Nmap: '' x"
    using splitlines_error_text[of msg] by auto
  obtain ys where "slice_to (x # xs) l = x # ys"
    using slice_to_Cons_pos[OF assms, of x xs] by auto
  then have "prefix x (join [LF] (slice_to (splitlines (''Error running Nmap: '' @ msg)) l))"
    using sp join_Cons_prefix[of x "[LF]" ys] by simp
  then show ?thesis using px by (rule prefix_order.trans[rotated])
qed

lemma finish_limit:
  "finish (Vulscan_output_limit t d l) s = join [LF] (slice_to (splitlines s) l)"
  by (simp add: finish_def)

lemma finish_other: "(\<forall>t d l. op \<noteq> Vulscan_output_limit t d l) \<Longrightarrow> finish op s = s"
  by (cases op) (simp_all add: finish_def)

lemma failure_text_eq:
  "reaches_executor op \<Longrightarrow> is_failure (respond w (request_of op)) \<Longrightarrow>
   fst (run_nmap_command (argument_vector op) w) =
     ''Error running Nmap: '' @ underlying_message (request_of op) (respond w (request_of op))"
  by (cases "respond w (request_of op)")
     (simp_all add: run_nmap_command_fst request_of_eq)

lemma splitlines_three_lines: "splitlines three_lines = [''CVE-1'', ''CVE-2'', ''CVE-3'']"
  by (simp add: three_lines_def splitlines_def is_linebreak_def)

section \<open>Supplied values in the argument vector\<close>

text \<open>
  Claim C1, as stated, fails. The basic vulnerability lookup writes the supplied
  database name between \<^verbatim>\<open>"vulscandb=\<close> and a closing double quote, inside the one
  argument that follows \<^verbatim>\<open>--script-args\<close>: the name \<^verbatim>\<open>exploitdb.csv\<close> is a supplied value
  and no element of the vector.
\<close>

theorem vulscan_database_not_own_slot:
  "user_values (Vulscan_basic ''127.0.0.1'' ''exploitdb.csv'')
     = [''127.0.0.1'', ''exploitdb.csv'']
   \<and> argument_vector (Vulscan_basic ''127.0.0.1'' ''exploitdb.csv'') =
       [''-sV'', ''--script=vulscan/vulscan.nse'', ''--script-args'',
        [DQUOTE] @ ''vulscandb=exploitdb.csv'' @ [DQUOTE], ''127.0.0.1'']
   \<and> ''exploitdb.csv''
       \<notin> set (argument_vector (Vulscan_basic ''127.0.0.1'' ''exploitdb.csv''))"
  by (simp add: argument_vector_simps)

text \<open>
  Claim C1, amended. For every call of a catalog operation that reaches the
  executor, each supplied value that the operation passes on as such (every value,
  but only the target for the four vulnerability lookups, and none for the scan of
  several hosts) is an element of the argument vector on its own. For every
  operation but these five, each element of the vector is one of the module's own
  words or one of the supplied values, so no element joins a supplied value with
  anything. The scan of several hosts hands over the white-space separated parts of
  its value, one element each; the four vulnerability lookups write the database
  name (and the output template) into the single element after
  \<^verbatim>\<open>--script-args\<close>, and their line limit is no part of the vector.
\<close>

theorem supplied_values_own_slots:
  "(reaches_executor op \<longrightarrow> (\<forall>v \<in> set (own_slot_values op). v \<in> set (argument_vector op)))
   \<and> (reaches_executor op \<and> \<not> interpolating op \<and> \<not> splitting op \<longrightarrow>
        set (argument_vector op) \<subseteq> set operation_words \<union> set (user_values op))
   \<and> argument_vector (Scan_multiple_hosts hosts) = split hosts
   \<and> argument_vector (Vulscan_basic target database) =
       [''-sV'', ''--script=vulscan/vulscan.nse'', ''--script-args'',
        [DQUOTE] @ ''vulscandb='' @ database @ [DQUOTE], target]
   \<and> argument_vector (Vulscan_output_limit target database limit) =
       [''-sV'', ''--script=vulscan/vulscan.nse'', ''--script-args'',
        [DQUOTE] @ ''vulscandb='' @ database @ '',vulscanshowall=0,vulscanoutput='' @ [SQUOTE]
          @ ''{id} - {title}'' @ [SQUOTE] @ [DQUOTE], target]
   \<and> argument_vector (Vulscan_interactive target database) =
       [''-sV'', ''--script=vulscan/vulscan.nse'', ''--script-args'',
        [DQUOTE] @ ''vulscandb='' @ database @ '',vulscaninteractive=1'' @ [DQUOTE], target]
   \<and> argument_vector (Vulscan_custom_output target database custom_template) =
       [''-sV'', ''--script=vulscan/vulscan.nse'', ''--script-args'',
        [DQUOTE] @ ''vulscandb='' @ database @ '',vulscanoutput='' @ [SQUOTE] @ custom_template
          @ [SQUOTE] @ [DQUOTE], target]"
proof -
  have a: "reaches_executor op \<longrightarrow> (\<forall>v \<in> set (own_slot_values op). v \<in> set (argument_vector op))"
    by (cases op)
       (simp_all add: own_slot_values_def interpolating_def splitting_def argument_vector_simps
          argument_vector_top_ports reaches_executor_top_ports)
  have b: "reaches_executor op \<and> \<not> interpolating op \<and> \<not> splitting op \<longrightarrow>
        set (argument_vector op) \<subseteq> set operation_words \<union> set (user_values op)"
    by (cases op)
       (simp_all add: interpolating_def splitting_def argument_vector_simps operation_words_def
          argument_vector_top_ports reaches_executor_top_ports)
  show ?thesis using a b by (simp add: argument_vector_simps)
qed

theorem supplied_values_own_slots_witness:
  "reaches_executor (Port_scan ''127.0.0.1'' ''80,443'')
   \<and> own_slot_values (Port_scan ''127.0.0.1'' ''80,443'') = [''127.0.0.1'', ''80,443'']
   \<and> ''127.0.0.1'' \<in> set (argument_vector (Port_scan ''127.0.0.1'' ''80,443''))
   \<and> ''80,443'' \<in> set (argument_vector (Port_scan ''127.0.0.1'' ''80,443''))
   \<and> \<not> interpolating (Port_scan ''127.0.0.1'' ''80,443'')
   \<and> \<not> splitting (Port_scan ''127.0.0.1'' ''80,443'')
   \<and> set (argument_vector (Port_scan ''127.0.0.1'' ''80,443''))
       \<subseteq> set operation_words \<union> set (user_values (Port_scan ''127.0.0.1'' ''80,443''))"
proof -
  have r: "reaches_executor (Port_scan ''127.0.0.1'' ''80,443'')"
    by (simp add: reaches_executor_other)
  have o: "own_slot_values (Port_scan ''127.0.0.1'' ''80,443'') = [''127.0.0.1'', ''80,443'']"
    and i: "\<not> interpolating (Port_scan ''127.0.0.1'' ''80,443'')"
    and s: "\<not> splitting (Port_scan ''127.0.0.1'' ''80,443'')"
    by (simp_all add: own_slot_values_def interpolating_def splitting_def)
  show ?thesis
    using r o i s supplied_values_own_slots[of "Port_scan ''127.0.0.1'' ''80,443''"]
    by simp
qed

section \<open>Failures of the catalog path\<close>

text \<open>
  Claim C3, as stated, fails. The line-limited lookup applies its limit to the text
  of a failure as to any other text: when the binary is missing, a limit of 0 (and a
  limit of -1, the text being one line) leaves the empty text.
\<close>

theorem limited_lookup_failure_empty:
  "fst (dispatch (Vulscan_output_limit ''127.0.0.1'' ''cve.csv'' 0) failing_world) = Inr []
   \<and> fst (dispatch (Vulscan_output_limit ''127.0.0.1'' ''cve.csv'' (- 1)) failing_world) = Inr []"
  by (simp add: dispatch_eq reaches_limit run_nmap_command_fst failing_world_def finish_def
        slice_to_def splitlines_def is_linebreak_def del: dispatch.simps)

text \<open>
  Claim C3, amended. Whenever the request of a catalog operation fails, by running
  into the deadline or by an exception, the executor's text is
  \<^verbatim>\<open>Error running Nmap: \<close> followed by the message of the exception: the message
  given by the fault, or for the deadline the sentence that the command timed out
  after 60 seconds. Every operation but the line-limited lookup returns this text as
  it is, so its result is not empty. The line-limited lookup returns the slice of the
  lines of this text that its limit selects; with a limit of at least 1 the result
  begins with \<^verbatim>\<open>Error running Nmap: \<close> and is not empty.
\<close>

theorem catalog_failure_text:
  assumes "reaches_executor op" and "is_failure (respond w (request_of op))"
  shows "(let text = ''Error running Nmap: ''
                       @ underlying_message (request_of op) (respond w (request_of op));
              result = fst (dispatch op w)
          in result = Inr (finish op text)
             \<and> ((\<forall>t d l. op \<noteq> Vulscan_output_limit t d l) \<longrightarrow> result = Inr text \<and> text \<noteq> [])
             \<and> (\<forall>t d l. op = Vulscan_output_limit t d l \<and> 1 \<le> l \<longrightarrow>
                   prefix ''Error running Nmap: '' (finish op text) \<and> finish op text \<noteq> [])
             \<and> (\<forall>msg. respond w (request_of op) = Fault msg \<longrightarrow>
                   text = ''Error running Nmap: '' @ msg)
             \<and> (\<forall>out err. respond w (request_of op) = Overran out err \<longrightarrow>
                   text = ''Error running Nmap: Command '' @ [SQUOTE]
                            @ repr_list (''nmap'' # argument_vector op) @ [SQUOTE]
                            @ '' timed out after 60 seconds''))"
proof -
  let ?text = "''Error running Nmap: ''
                 @ underlying_message (request_of op) (respond w (request_of op))"
  have r: "fst (dispatch op w) = Inr (finish op ?text)"
    using failure_text_eq[OF assms] by (simp add: dispatch_eq[OF assms(1)])
  have a: "(\<forall>t d l. op \<noteq> Vulscan_output_limit t d l) \<longrightarrow>
             fst (dispatch op w) = Inr ?text \<and> ?text \<noteq> []"
    using r finish_other[of op ?text] by simp
  have b: "\<forall>t d l. op = Vulscan_output_limit t d l \<and> 1 \<le> l \<longrightarrow>
             prefix ''Error running Nmap: '' (finish op ?text) \<and> finish op ?text \<noteq> []"
  proof (intro allI impI)
    fix t d l
    assume h: "op = Vulscan_output_limit t d l \<and> 1 \<le> l"
    then have p: "prefix ''Error running Nmap: '' (finish op ?text)"
      using limited_error_text[of l] by (simp add: finish_limit del: append.simps)
    then show "prefix ''Error running Nmap: '' (finish op ?text) \<and> finish op ?text \<noteq> []"
      by auto
  qed
  have c: "\<forall>msg. respond w (request_of op) = Fault msg \<longrightarrow>
             ?text = ''Error running Nmap: '' @ msg"
    by simp
  have d: "\<forall>out err. respond w (request_of op) = Overran out err \<longrightarrow>
             ?text = ''Error running Nmap: Command '' @ [SQUOTE]
                       @ repr_list (''nmap'' # argument_vector op) @ [SQUOTE]
                       @ '' timed out after 60 seconds''"
    using timeout_message[of "argument_vector op"] by (simp add: request_of_eq[OF assms(1)])
  show ?thesis unfolding Let_def using r a b c d by blast
qed

theorem catalog_failure_text_witness:
  "reaches_executor (Simple_scan ''127.0.0.1'')
   \<and> is_failure (respond failing_world (request_of (Simple_scan ''127.0.0.1'')))
   \<and> fst (dispatch (Simple_scan ''127.0.0.1'') failing_world)
       = Inr ''Error running Nmap: [Errno 2] No such file or directory''
   \<and> reaches_executor (Vulscan_output_limit ''127.0.0.1'' ''cve.csv'' 1)
   \<and> is_failure (respond stalled_world (request_of (Vulscan_output_limit ''127.0.0.1'' ''cve.csv'' 1)))
   \<and> (\<exists>text. fst (dispatch (Vulscan_output_limit ''127.0.0.1'' ''cve.csv'' 1) stalled_world)
                = Inr text \<and> prefix ''Error running Nmap: '' text)"
proof -
  have f1: "is_failure (respond failing_world (request_of (Simple_scan ''127.0.0.1'')))"
    by (simp add: failing_world_def)
  have f2: "is_failure (respond stalled_world
                          (request_of (Vulscan_output_limit ''127.0.0.1'' ''cve.csv'' 1)))"
    by (simp add: stalled_world_def)
  have "fst (dispatch (Simple_scan ''127.0.0.1'') failing_world) =
          Inr (''Error running Nmap: ''
            @ underlying_message (request_of (Simple_scan ''127.0.0.1''))
                (respond failing_world (request_of (Simple_scan ''127.0.0.1''))))"
    using catalog_failure_text[OF reaches_simple_scan f1, unfolded Let_def, THEN conjunct2, THEN conjunct1]
    by simp
  then have r1: "fst (dispatch (Simple_scan ''127.0.0.1'') failing_world)
                   = Inr ''Error running Nmap: [Errno 2] No such file or directory''"
    by (simp add: failing_world_def)
  note l = catalog_failure_text[OF reaches_limit f2, unfolded Let_def]
  have r2: "\<exists>text. fst (dispatch (Vulscan_output_limit ''127.0.0.1'' ''cve.csv'' 1) stalled_world)
                = Inr text \<and> prefix ''Error running Nmap: '' text"
    using l[THEN conjunct1] l[THEN conjunct2, THEN conjunct2, THEN conjunct1] by blast
  show ?thesis using reaches_simple_scan reaches_limit f1 f2 r1 r2 by blast
qed

text \<open>
  Claim C4. The request of every call of a catalog operation that reaches the
  executor carries a deadline of 60 seconds. When the process is still running at
  the deadline, the executor returns \<^verbatim>\<open>Error running Nmap: \<close> followed by the
  sentence that the command (the representation of its argument list) timed out
  after 60 seconds: the text names the kind of failure and has no part that depends
  on the output captured so far. The result of the operation is what it makes of
  this text, and is the same as when nothing had been captured.
\<close>

theorem catalog_timeout_result:
  "(reaches_executor op \<longrightarrow> timeout (request_of op) = 60)
   \<and> (reaches_executor op \<and> respond w (request_of op) = Overran out err \<longrightarrow>
        fst (run_nmap_command (argument_vector op) w) =
          ''Error running Nmap: Command '' @ [SQUOTE] @ repr_list (''nmap'' # argument_vector op)
            @ [SQUOTE] @ '' timed out after 60 seconds''
        \<and> fst (dispatch op w) = Inr (finish op (fst (run_nmap_command (argument_vector op) w)))
        \<and> fst (dispatch op w) = fst (dispatch op (w\<lparr>respond := (\<lambda>req. Overran [] [])\<rparr>)))"
proof -
  have t: "reaches_executor op \<longrightarrow> timeout (request_of op) = 60"
    by (simp add: request_of_eq)
  have o: "reaches_executor op \<and> respond w (request_of op) = Overran out err \<longrightarrow>
        fst (run_nmap_command (argument_vector op) w) =
          ''Error running Nmap: Command '' @ [SQUOTE] @ repr_list (''nmap'' # argument_vector op)
            @ [SQUOTE] @ '' timed out after 60 seconds''
        \<and> fst (dispatch op w) = Inr (finish op (fst (run_nmap_command (argument_vector op) w)))
        \<and> fst (dispatch op w) = fst (dispatch op (w\<lparr>respond := (\<lambda>req. Overran [] [])\<rparr>))"
  proof
    assume h: "reaches_executor op \<and> respond w (request_of op) = Overran out err"
    then have r: "respond w (nmap_request (argument_vector op)) = Overran out err"
      using request_of_eq[of op] by auto
    show "fst (run_nmap_command (argument_vector op) w) =
          ''Error running Nmap: Command '' @ [SQUOTE] @ repr_list (''nmap'' # argument_vector op)
            @ [SQUOTE] @ '' timed out after 60 seconds''
        \<and> fst (dispatch op w) = Inr (finish op (fst (run_nmap_command (argument_vector op) w)))
        \<and> fst (dispatch op w) = fst (dispatch op (w\<lparr>respond := (\<lambda>req. Overran [] [])\<rparr>))"
      using h r by (simp add: dispatch_eq run_nmap_command_fst str_nat_60)
  qed
  show ?thesis using t o by blast
qed

theorem catalog_timeout_result_witness:
  "reaches_executor (Simple_scan ''127.0.0.1'')
   \<and> respond stalled_world (request_of (Simple_scan ''127.0.0.1'')) = Overran ''Starting Nmap'' []
   \<and> fst (dispatch (Simple_scan ''127.0.0.1'') stalled_world) =
       Inr (''Error running Nmap: Command '' @ [SQUOTE] @ ''['' @ [SQUOTE] @ ''nmap'' @ [SQUOTE]
         @ '', '' @ [SQUOTE] @ ''-T4'' @ [SQUOTE] @ '', '' @ [SQUOTE] @ ''127.0.0.1'' @ [SQUOTE]
         @ '']'' @ [SQUOTE] @ '' timed out after 60 seconds'')"
  using catalog_timeout_result[of "Simple_scan ''127.0.0.1''" stalled_world "''Starting Nmap''" "[]"]
        reaches_simple_scan
  by (simp add: stalled_world_def finish_def argument_vector_simps repr_list_def repr_str_def
        repr_char_def is_printable_def Let_def del: dispatch.simps)

text \<open>
  Claim C5. When the process of a catalog operation ends, whatever its exit code and
  its standard error, the executor returns the captured standard output and nothing
  else; the result of the operation is what it makes of that output (the output
  itself, but for the line-limited lookup), and is the same as after an exit code of 0
  with an empty standard error.
\<close>

theorem nonzero_exit_returns_stdout:
  assumes "reaches_executor op" and "respond w (request_of op) = Exited out err rc"
  shows "fst (run_nmap_command (argument_vector op) w) = out
         \<and> fst (dispatch op w) = Inr (finish op out)
         \<and> fst (dispatch op w) = fst (dispatch op (w\<lparr>respond := (\<lambda>req. Exited out [] 0)\<rparr>))"
  using assms by (simp add: request_of_eq dispatch_eq run_nmap_command_fst)

theorem nonzero_exit_returns_stdout_witness:
  "reaches_executor (Simple_scan ''127.0.0.1'')
   \<and> respond (answering_world ''Host seems down'' ''route: warning'' 1)
       (request_of (Simple_scan ''127.0.0.1'')) = Exited ''Host seems down'' ''route: warning'' 1
   \<and> fst (dispatch (Simple_scan ''127.0.0.1'') (answering_world ''Host seems down'' ''route: warning'' 1))
       = Inr ''Host seems down''"
  using nonzero_exit_returns_stdout[of "Simple_scan ''127.0.0.1''" "answering_world ''Host seems down'' ''route: warning'' 1"
             "''Host seems down''" "''route: warning''" 1]
        reaches_simple_scan
  by (simp add: answering_world_def finish_def del: dispatch.simps)

text \<open>
  Claim C6, as stated, fails in two ways. The line-limited lookup cuts the text that
  the executor has made of a fault like any other text, and with a limit of 0 returns
  the empty text, which carries no message. A scan of the top ports renders its
  integer argument before the executor and its handler are entered: for an integer
  of 4301 digits the \<^verbatim>\<open>ValueError\<close> of \<^verbatim>\<open>str\<close> passes to the caller, and the
  world is left as it was.
\<close>

theorem fault_text_lost_or_raised:
  "fst (dispatch (Vulscan_output_limit ''scanme.nmap.org'' ''exploitdb.csv'' 0) failing_world)
     = Inr []
   \<and> dispatch (Scan_top_ports ''127.0.0.1'' (10 ^ 4300)) failing_world
       = (Inl digits_exceeded, failing_world)"
proof -
  have "fst (dispatch (Vulscan_output_limit ''scanme.nmap.org'' ''exploitdb.csv'' 0) failing_world)
          = Inr []"
    by (simp add: dispatch_eq reaches_limit run_nmap_command_fst failing_world_def finish_def
          slice_to_def del: dispatch.simps)
  then show ?thesis using top_ports_raises(2)[of failing_world] by blast
qed

text \<open>
  Claim C6, amended. The executor of the catalog path turns every fault of process
  creation or execution into the text \<^verbatim>\<open>Error running Nmap: \<close> followed by the
  message of the fault. A call of a catalog operation that reaches the executor
  returns what the operation makes of this text: the text itself for every operation
  but the line-limited lookup, and for that lookup the slice of its lines that the
  limit selects, which begins with \<^verbatim>\<open>Error running Nmap: \<close> when the limit is at
  least 1. The raw path turns a fault into \<^verbatim>\<open>Error executing command: \<close> followed
  by the message, and a command still running at its deadline into a fixed
  sentence. Every call of the raw path, and every call of a catalog operation that
  reaches the executor, returns a text and a world in which exactly its one request
  has been recorded.
\<close>

theorem faults_become_text:
  "(respond w (nmap_request args) = Fault msg \<longrightarrow>
      fst (run_nmap_command args w) = ''Error running Nmap: '' @ msg)
   \<and> (reaches_executor op \<and> respond w (request_of op) = Fault msg \<longrightarrow>
        fst (dispatch op w) = Inr (finish op (''Error running Nmap: '' @ msg))
        \<and> ((\<forall>t d l. op \<noteq> Vulscan_output_limit t d l) \<longrightarrow>
              fst (dispatch op w) = Inr (''Error running Nmap: '' @ msg))
        \<and> (\<forall>t d l. op = Vulscan_output_limit t d l \<and> 1 \<le> l \<longrightarrow>
              prefix ''Error running Nmap: '' (finish op (''Error running Nmap: '' @ msg))))
   \<and> (respond w (raw_request command) = Fault msg \<longrightarrow>
      fst (execute_custom_nmap_command command w) = ''Error executing command: '' @ msg)
   \<and> (respond w (raw_request command) = Overran out err \<longrightarrow>
      fst (execute_custom_nmap_command command w) = ''Error: Command timed out after 120 seconds'')
   \<and> (reaches_executor op \<longrightarrow>
        (\<exists>text. dispatch op w = (Inr text, w\<lparr>calls := calls w @ [request_of op]\<rparr>)))
   \<and> (\<exists>text. execute_custom_nmap_command command w =
               (text, w\<lparr>calls := calls w @ [raw_request command]\<rparr>))"
proof -
  have raw: "\<exists>text. execute_custom_nmap_command command w =
               (text, w\<lparr>calls := calls w @ [raw_request command]\<rparr>)"
    using execute_custom_nmap_command_snd[of command w]
    by (metis prod.collapse)
  have exec: "respond w (nmap_request args) = Fault msg \<longrightarrow>
      fst (run_nmap_command args w) = ''Error running Nmap: '' @ msg"
    by (simp add: run_nmap_command_fst)
  have lim: "\<forall>t d l. op = Vulscan_output_limit t d l \<and> 1 \<le> l \<longrightarrow>
              prefix ''Error running Nmap: '' (finish op (''Error running Nmap: '' @ msg))"
    using limited_error_text by (auto simp: finish_limit simp del: append.simps)
  have disp: "reaches_executor op \<and> respond w (request_of op) = Fault msg \<longrightarrow>
        fst (dispatch op w) = Inr (finish op (''Error running Nmap: '' @ msg))
        \<and> ((\<forall>t d l. op \<noteq> Vulscan_output_limit t d l) \<longrightarrow>
              fst (dispatch op w) = Inr (''Error running Nmap: '' @ msg))"
  proof
    assume h: "reaches_executor op \<and> respond w (request_of op) = Fault msg"
    then have r: "respond w (nmap_request (argument_vector op)) = Fault msg"
      using request_of_eq[of op] by auto
    have "fst (dispatch op w) = Inr (finish op (''Error running Nmap: '' @ msg))"
      using h r by (simp add: dispatch_eq run_nmap_command_fst)
    then show "fst (dispatch op w) = Inr (finish op (''Error running Nmap: '' @ msg))
        \<and> ((\<forall>t d l. op \<noteq> Vulscan_output_limit t d l) \<longrightarrow>
              fst (dispatch op w) = Inr (''Error running Nmap: '' @ msg))"
      using finish_other[of op "''Error running Nmap: '' @ msg"] by simp
  qed
  have ret: "reaches_executor op \<longrightarrow>
        (\<exists>text. dispatch op w = (Inr text, w\<lparr>calls := calls w @ [request_of op]\<rparr>))"
    by (simp add: request_of_eq dispatch_eq run_nmap_command_snd)
  have rawf: "respond w (raw_request command) = Fault msg \<longrightarrow>
      fst (execute_custom_nmap_command command w) = ''Error executing command: '' @ msg"
    by (simp add: execute_custom_nmap_command_Fault)
  have rawt: "respond w (raw_request command) = Overran out err \<longrightarrow>
      fst (execute_custom_nmap_command command w) = ''Error: Command timed out after 120 seconds''"
    by (simp add: execute_custom_nmap_command_Overran)
  show ?thesis using exec disp lim rawf rawt ret raw by blast
qed

theorem faults_become_text_witness:
  "respond failing_world (nmap_request [''-T4'', ''127.0.0.1''])
     = Fault ''[Errno 2] No such file or directory''
   \<and> fst (run_nmap_command [''-T4'', ''127.0.0.1''] failing_world)
       = ''Error running Nmap: [Errno 2] No such file or directory''
   \<and> reaches_executor (Simple_scan ''127.0.0.1'')
   \<and> fst (dispatch (Simple_scan ''127.0.0.1'') failing_world)
       = Inr ''Error running Nmap: [Errno 2] No such file or directory''
   \<and> fst (execute_custom_nmap_command ''nmap -sS 127.0.0.1'' failing_world)
       = ''Error executing command: [Errno 2] No such file or directory''
   \<and> respond stalled_world (raw_request ''nmap -sS 127.0.0.1'') = Overran ''Starting Nmap'' []
   \<and> fst (execute_custom_nmap_command ''nmap -sS 127.0.0.1'' stalled_world)
       = ''Error: Command timed out after 120 seconds''"
  using faults_become_text[of failing_world "[''-T4'', ''127.0.0.1'']" "''[Errno 2] No such file or directory''"
             "Simple_scan ''127.0.0.1''" "''nmap -sS 127.0.0.1''"]
        faults_become_text[of stalled_world _ _ _ "''nmap -sS 127.0.0.1''" "''Starting Nmap''" "[]"]
        reaches_simple_scan
  by (simp add: failing_world_def stalled_world_def finish_def del: dispatch.simps)

section \<open>The line-limited lookup\<close>

text \<open>
  Claim C7, as stated, fails for a negative limit. With a response of three lines and
  the limit -1 the lookup returns the first two lines, while the first -1 lines of a
  text are no lines at all.
\<close>

theorem negative_limit_not_first_lines:
  "fst (dispatch (Vulscan_output_limit ''127.0.0.1'' ''cve.csv'' (- 1)) (answering_world three_lines [] 0))
     = Inr (''CVE-1'' @ [LF] @ ''CVE-2'')
   \<and> join [LF] (take (nat (- 1)) (splitlines three_lines)) = []"
  by (simp add: dispatch_eq reaches_limit run_nmap_command_fst answering_world_def finish_limit
        splitlines_three_lines slice_to_def del: dispatch.simps)

text \<open>
  Claim C7, amended. For every response of the executor and every limit N that is not
  negative, the line-limited lookup returns the first N lines of that response (all of
  them when there are fewer), in their order, joined by line feeds. The limit is
  applied to the text the executor has returned, after the request has been made, and
  the argument vector does not depend on it.
\<close>

theorem limit_keeps_first_lines:
  assumes "0 \<le> N"
  shows "dispatch (Vulscan_output_limit target database N) w =
           (Inr (join [LF] (take (nat N)
              (splitlines (fst (run_nmap_command
                 (argument_vector (Vulscan_output_limit target database N)) w))))),
            snd (run_nmap_command (argument_vector (Vulscan_output_limit target database N)) w))
         \<and> argument_vector (Vulscan_output_limit target database N)
             = argument_vector (Vulscan_output_limit target database 0)"
  using assms
  by (simp add: dispatch_eq reaches_limit finish_limit slice_to_nonneg argument_vector_simps
        del: dispatch.simps)

theorem limit_keeps_first_lines_witness:
  "(0::int) \<le> 2
   \<and> fst (dispatch (Vulscan_output_limit ''127.0.0.1'' ''cve.csv'' 2) (answering_world three_lines [] 0))
       = Inr (''CVE-1'' @ [LF] @ ''CVE-2'')"
proof -
  have h: "(0::int) \<le> 2" by simp
  have "fst (run_nmap_command (argument_vector (Vulscan_output_limit ''127.0.0.1'' ''cve.csv'' 2))
               (answering_world three_lines [] 0)) = three_lines"
    by (simp add: run_nmap_command_fst answering_world_def)
  then show ?thesis
    using limit_keeps_first_lines[OF h, of "''127.0.0.1''" "''cve.csv''" "answering_world three_lines [] 0"]
    by (simp add: splitlines_three_lines del: dispatch.simps)
qed

text \<open>
  Claim C10. The line-limited lookup cuts the lines of the executor's response as a
  slice does. When the response has no more lines than the limit, all its lines are
  returned, joined by line feeds: this is the response as a whole with its line ends
  made uniform and the last one dropped, and the very same text when its only line
  ends are line feeds and it does not end with one. A limit of 0 gives the empty
  text. A negative limit gives all lines but the last ones, as many as the limit's
  absolute value. The lookup returns a text for every limit.
\<close>

theorem limit_slice_semantics:
  "(let response = fst (run_nmap_command
                          (argument_vector (Vulscan_output_limit target database limit)) w);
        lines = splitlines response;
        result = fst (dispatch (Vulscan_output_limit target database limit) w)
    in (int (length lines) \<le> limit \<longrightarrow>
          result = Inr (join [LF] lines)
          \<and> ((\<forall>c \<in> set response. is_linebreak c \<longrightarrow> c = LF)
               \<and> (response = [] \<or> last response \<noteq> LF) \<longrightarrow> result = Inr response))
       \<and> (limit = 0 \<longrightarrow> result = Inr [])
       \<and> (limit < 0 \<longrightarrow> result = Inr (join [LF] (take (length lines - nat (- limit)) lines))))"
  by (simp add: Let_def dispatch_eq reaches_limit finish_limit slice_to_all slice_to_neg
        slice_to_nonneg join_splitlines del: dispatch.simps)

theorem limit_slice_semantics_witness:
  "fst (dispatch (Vulscan_output_limit ''127.0.0.1'' ''cve.csv'' 10) (answering_world three_lines [] 0))
     = Inr (''CVE-1'' @ [LF] @ ''CVE-2'' @ [LF] @ ''CVE-3'')
   \<and> fst (dispatch (Vulscan_output_limit ''127.0.0.1'' ''cve.csv'' 10) (answering_world ''CVE-1'' [] 0))
     = Inr ''CVE-1''
   \<and> fst (dispatch (Vulscan_output_limit ''127.0.0.1'' ''cve.csv'' 0) (answering_world three_lines [] 0))
     = Inr []
   \<and> fst (dispatch (Vulscan_output_limit ''127.0.0.1'' ''cve.csv'' (- 2)) (answering_world three_lines [] 0))
     = Inr ''CVE-1''"
proof -
  have e: "\<And>l s. fst (run_nmap_command (argument_vector (Vulscan_output_limit ''127.0.0.1'' ''cve.csv'' l))
               (answering_world s [] 0)) = s"
    by (simp add: run_nmap_command_fst answering_world_def)
  have one: "splitlines ''CVE-1'' = [''CVE-1'']"
    by (simp add: splitlines_def is_linebreak_def)
  show ?thesis
    using limit_slice_semantics[of "''127.0.0.1''" "''cve.csv''" 10 "answering_world three_lines [] 0"]
          limit_slice_semantics[of "''127.0.0.1''" "''cve.csv''" 10 "answering_world ''CVE-1'' [] 0"]
          limit_slice_semantics[of "''127.0.0.1''" "''cve.csv''" 0 "answering_world three_lines [] 0"]
          limit_slice_semantics[of "''127.0.0.1''" "''cve.csv''" "- 2" "answering_world three_lines [] 0"]
    by (simp add: Let_def e one splitlines_three_lines del: dispatch.simps)
qed

section \<open>Repeated calls\<close>

text \<open>
  Claim C9. A call of a catalog operation repeated in the world the first call leaves
  gives the same result, and both calls make the same requests: the one request of
  the call when it reaches the executor. In two worlds that answer requests alike,
  whatever they have recorded, the same call gives the same result and makes the
  same requests.
\<close>

theorem dispatch_repeatable:
  "fst (dispatch op (snd (dispatch op w))) = fst (dispatch op w)
   \<and> calls (snd (dispatch op (snd (dispatch op w)))) = calls w @ requests_of op @ requests_of op
   \<and> (reaches_executor op \<longrightarrow> requests_of op = [request_of op])
   \<and> (respond w1 = respond w2 \<longrightarrow>
         fst (dispatch op w1) = fst (dispatch op w2)
         \<and> calls (snd (dispatch op w1)) = calls w1 @ requests_of op
         \<and> calls (snd (dispatch op w2)) = calls w2 @ requests_of op
         \<and> (reaches_executor op \<longrightarrow>
               last (calls (snd (dispatch op w1))) = last (calls (snd (dispatch op w2)))))"
proof -
  have r: "respond (snd (dispatch op w)) = respond w"
  proof (cases "reaches_executor op")
    case True
    then show ?thesis by (simp add: dispatch_eq run_nmap_command_snd)
  next
    case False
    then show ?thesis by (simp add: dispatch_raises)
  qed
  have a: "fst (dispatch op (snd (dispatch op w))) = fst (dispatch op w)"
    using r by (rule dispatch_fst_respond)
  have b: "calls (snd (dispatch op (snd (dispatch op w)))) = calls w @ requests_of op @ requests_of op"
    by (simp add: dispatch_calls)
  have c: "reaches_executor op \<longrightarrow> requests_of op = [request_of op]"
    by (simp add: requests_of_eq request_of_eq)
  have d: "reaches_executor op \<longrightarrow>
             last (calls (snd (dispatch op w1))) = last (calls (snd (dispatch op w2)))"
    by (simp add: dispatch_calls requests_of_eq)
  show ?thesis using a b c d dispatch_fst_respond[of w1 w2 op] dispatch_calls by blast
qed

theorem dispatch_repeatable_witness:
  "respond (answering_world three_lines [] 0)
     = respond ((answering_world three_lines [] 0)\<lparr>calls := [raw_request ''nmap -h'']\<rparr>)
   \<and> reaches_executor (Port_scan ''127.0.0.1'' ''80,443'')
   \<and> fst (dispatch (Port_scan ''127.0.0.1'' ''80,443'') (answering_world three_lines [] 0))
       = fst (dispatch (Port_scan ''127.0.0.1'' ''80,443'')
                ((answering_world three_lines [] 0)\<lparr>calls := [raw_request ''nmap -h'']\<rparr>))
   \<and> last (calls (snd (dispatch (Port_scan ''127.0.0.1'' ''80,443'')
                ((answering_world three_lines [] 0)\<lparr>calls := [raw_request ''nmap -h'']\<rparr>))))
       = nmap_request [''-p'', ''80,443'', ''-T4'', ''127.0.0.1'']"
proof -
  have h: "respond (answering_world three_lines [] 0)
             = respond ((answering_world three_lines [] 0)\<lparr>calls := [raw_request ''nmap -h'']\<rparr>)"
    by simp
  have r: "reaches_executor (Port_scan ''127.0.0.1'' ''80,443'')"
    by (simp add: reaches_executor_other)
  have c: "last (calls (snd (dispatch (Port_scan ''127.0.0.1'' ''80,443'')
                (answering_world three_lines [] 0))))
             = nmap_request [''-p'', ''80,443'', ''-T4'', ''127.0.0.1'']"
    using r by (simp add: dispatch_calls requests_of_eq argument_vector_simps del: dispatch.simps)
  note t = dispatch_repeatable[of "Port_scan ''127.0.0.1'' ''80,443''" "answering_world three_lines [] 0"
            "answering_world three_lines [] 0"
            "(answering_world three_lines [] 0)\<lparr>calls := [raw_request ''nmap -h'']\<rparr>"]
  have e: "fst (dispatch (Port_scan ''127.0.0.1'' ''80,443'') (answering_world three_lines [] 0))
       = fst (dispatch (Port_scan ''127.0.0.1'' ''80,443'')
                ((answering_world three_lines [] 0)\<lparr>calls := [raw_request ''nmap -h'']\<rparr>))"
    using t h by blast
  have l: "last (calls (snd (dispatch (Port_scan ''127.0.0.1'' ''80,443'')
                (answering_world three_lines [] 0))))
         = last (calls (snd (dispatch (Port_scan ''127.0.0.1'' ''80,443'')
                ((answering_world three_lines [] 0)\<lparr>calls := [raw_request ''nmap -h'']\<rparr>))))"
    using t h r by blast
  show ?thesis using h r e l c by (simp del: dispatch.simps)
qed

end
